theory Spec2Isabelle
  imports Main "HOL-Library.Word" "HOL-Library.Multiset" "HOL-Library.AList"
begin

section \<open>Go library functions called by the tracing adapter\<close>

text \<open>
  The adapter (trace/opentracing.go) stores the identifiers of a span as decimal strings
  in a baggage map and reads them back with strconv.ParseInt, comparing keys after
  strings.ToLower. These library functions are modelled here as far as the adapter
  uses them: base 10, bit size 64.
\<close>

type_synonym int64 = "64 word"
type_synonym byte = "8 word"

subsection \<open>strconv.FormatInt(i, 10)\<close>

definition digit_char :: "nat \<Rightarrow> char" where
  "digit_char d = char_of (48 + d)"

fun formatUint :: "nat \<Rightarrow> string" where
  "formatUint n =
     (if n < 10 then [digit_char n]
      else formatUint (n div 10) @ [digit_char (n mod 10)])"

declare formatUint.simps [simp del]

definition FormatInt :: "int64 \<Rightarrow> string" where
  \<comment> \<open>the magnitude in decimal, no leading zero, \<open>-\<close> in front of a negative value\<close>
  "FormatInt i =
     (if sint i < 0 then CHR ''-'' # formatUint (nat (- sint i))
      else formatUint (nat (sint i)))"

subsection \<open>strconv.ParseInt(s, 10, 64)\<close>

datatype NumError = ErrSyntax | ErrRange

definition isDigit :: "char \<Rightarrow> bool" where
  "isDigit c = (48 \<le> (of_char c :: nat) \<and> (of_char c :: nat) \<le> 57)"

definition digit_val :: "char \<Rightarrow> nat" where
  "digit_val c = of_char c - 48"

fun parseUint_loop :: "string \<Rightarrow> nat \<Rightarrow> NumError + nat" where
  \<comment> \<open>ParseUint's loop: left to right, stopping at the first bad byte or at overflow of uint64\<close>
  "parseUint_loop [] n = Inr n"
| "parseUint_loop (c # cs) n =
     (if \<not> isDigit c then Inl ErrSyntax
      else if n * 10 + digit_val c \<ge> 2 ^ 64 then Inl ErrRange
      else parseUint_loop cs (n * 10 + digit_val c))"

definition ParseUint :: "string \<Rightarrow> NumError + nat" where
  "ParseUint s = (if s = [] then Inl ErrSyntax else parseUint_loop s 0)"

definition ParseInt :: "string \<Rightarrow> NumError + int64" where
  \<comment> \<open>empty string: syntax error; one leading sign is picked off; the magnitude is parsed
      unsigned and checked against the cutoff \<open>2 ^ 63\<close>\<close>
  "ParseInt s =
     (if s = [] then Inl ErrSyntax
      else
        let neg = (hd s = CHR ''-'');
            s' = (if hd s = CHR ''+'' \<or> hd s = CHR ''-'' then tl s else s)
        in case ParseUint s' of
             Inl e \<Rightarrow> Inl e
           | Inr un \<Rightarrow>
               if \<not> neg \<and> un \<ge> 2 ^ 63 then Inl ErrRange
               else if neg \<and> un > 2 ^ 63 then Inl ErrRange
               else Inr (if neg then - word_of_nat un else word_of_nat un))"

subsection \<open>strings.ToLower\<close>

definition lower_byte :: "char \<Rightarrow> char" where
  "lower_byte c =
     (if 65 \<le> (of_char c :: nat) \<and> (of_char c :: nat) \<le> 90
      then char_of ((of_char c :: nat) + 32) else c)"

definition isASCII :: "string \<Rightarrow> bool" where
  "isASCII s = list_all (\<lambda>c. (of_char c :: nat) < 128) s"

definition ToLower :: "string \<Rightarrow> string" where
  \<comment> \<open>strings.ToLower on a string of ASCII bytes: \<open>A\<close>..\<open>Z\<close> become \<open>a\<close>..\<open>z\<close>.
      On other input Go maps whole runes by the Unicode tables; that part is not
      modelled, and statements about arbitrary keys ask for \<open>isASCII\<close>.\<close>
  "ToLower s = map lower_byte s"

section \<open>trace/opentracing.go\<close>

subsection \<open>Errors and panics\<close>

text \<open>
  A panic carries a value; the ones this file can raise itself are a failed type
  assertion and a nil pointer dereference, calls into a carrier can raise any other,
  the nil value of \<open>panic(nil)\<close> included. For a nil panic value \<open>recover()\<close> returns
  nil, as it does when nothing panics (the language before Go 1.21, for which this code
  was written).
\<close>

datatype panic_value =
    TypeAssertionFailed
  | NilPointerDereference
  | ForeignPanic string
  | NilPanic

datatype error =
    ErrUnsupportedSpanContext
  | ErrUnsupportedFormat
  | ErrContractViolation panic_value
  | ErrorsNew string
  | ForeignError string

datatype 'a outcome = Return 'a | Panic panic_value

definition recover :: "'a outcome \<Rightarrow> panic_value option" where
  \<comment> \<open>\<open>recover()\<close> in a deferred function: the value of the panic that is under way,
      nil (None) when there is none or when its value is nil; the panic stops either way\<close>
  "recover body =
     (case body of
        Return res \<Rightarrow> None
      | Panic r \<Rightarrow> if r = NilPanic then None else Some r)"

subsection \<open>textMapReaderWriter: a map[string]string\<close>

text \<open>
  A Go map is modelled by the list of its entries, keys distinct, in the order in which
  a \<open>range\<close> over it visits them. Go leaves that order open, so the statements below
  that depend on iteration are made for every reordering of the entries.
\<close>

type_synonym textMapReaderWriter = "(string \<times> string) list"

definition index_map :: "textMapReaderWriter \<Rightarrow> string \<Rightarrow> string" where
  \<comment> \<open>\<open>m[k]\<close>: the zero value \<open>""\<close> for an absent key\<close>
  "index_map m k = (case map_of m k of None \<Rightarrow> [] | Some v \<Rightarrow> v)"

definition Set :: "textMapReaderWriter \<Rightarrow> string \<Rightarrow> string \<Rightarrow> textMapReaderWriter" where
  \<comment> \<open>\<open>t[k] = v\<close>\<close>
  "Set t k v = AList.update k v t"

fun ForeachKey ::
  "textMapReaderWriter \<Rightarrow> (string \<Rightarrow> string \<Rightarrow> 's \<Rightarrow> error option \<times> 's) \<Rightarrow> 's
     \<Rightarrow> error option \<times> 's" where
  \<comment> \<open>the handler is a closure: \<open>'s\<close> is the state of the variables it captures\<close>
  "ForeachKey [] handler s = (None, s)"
| "ForeachKey ((k, v) # t) handler s =
     (case handler k v s of
        (Some err, s') \<Rightarrow> (Some err, s')
      | (None, s') \<Rightarrow> ForeachKey t handler s')"

definition CloneTo :: "textMapReaderWriter \<Rightarrow> textMapReaderWriter \<Rightarrow> textMapReaderWriter" where
  \<comment> \<open>\<open>t.ForeachKey(func(k, v) { w.Set(k, v); return nil })\<close>, the result is \<open>w\<close> afterwards\<close>
  "CloneTo t w = snd (ForeachKey t (\<lambda>k v w'. (None, Set w' k v)) w)"

definition Clone :: "textMapReaderWriter \<Rightarrow> textMapReaderWriter" where
  "Clone t = CloneTo t []"

definition textMapReaderGet :: "textMapReaderWriter \<Rightarrow> string \<Rightarrow> string" where
  "textMapReaderGet tmr key =
     snd (ForeachKey tmr
            (\<lambda>k v val. if ToLower key = ToLower k then (Some (ErrorsNew ''dummy''), v)
                        else (None, val))
            [])"

subsection \<open>spanContext\<close>

record spanContext =
  baggageItems :: textMapReaderWriter

definition Init :: "spanContext \<Rightarrow> spanContext" where
  "Init c = c\<lparr>baggageItems := []\<rparr>"

definition ForeachBaggageItem ::
  "spanContext \<Rightarrow> (string \<Rightarrow> string \<Rightarrow> 's \<Rightarrow> bool \<times> 's) \<Rightarrow> 's \<Rightarrow> 's" where
  "ForeachBaggageItem c handler s =
     snd (ForeachKey (baggageItems c)
            (\<lambda>k v s. case handler k v s of
                        (b, s') \<Rightarrow> if \<not> b then (Some (ErrorsNew ''dummy error''), s')
                                   else (None, s'))
            s)"

definition parseBaggageInt64 :: "spanContext \<Rightarrow> string \<Rightarrow> int64" where
  "parseBaggageInt64 c key =
     ForeachBaggageItem c
       (\<lambda>k v val.
          if ToLower k = ToLower key then
            (case ParseInt v of
               Inl err \<Rightarrow> (True, val)
             | Inr i \<Rightarrow> (False, i))
          else (True, val))
       0"

definition spanContext_TraceId :: "spanContext \<Rightarrow> int64" where
  "spanContext_TraceId c = parseBaggageInt64 c ''traceid''"

definition spanContext_ParentId :: "spanContext \<Rightarrow> int64" where
  "spanContext_ParentId c = parseBaggageInt64 c ''parentid''"

definition spanContext_SpanId :: "spanContext \<Rightarrow> int64" where
  "spanContext_SpanId c = parseBaggageInt64 c ''spanid''"

definition spanContext_Resource :: "spanContext \<Rightarrow> string" where
  "spanContext_Resource c =
     ForeachBaggageItem c
       (\<lambda>k v resource.
          if ToLower k = ''resource'' then (False, v) else (True, resource))
       []"

subsection \<open>Trace and Span\<close>

text \<open>
  Modelled from the spec: the struct Trace is declared in trace.go, which is not among
  the sources; these are the fields opentracing.go reads and writes (\<open>trace_id\<close>,
  \<open>parent_id\<close>, \<open>span_id\<close>, \<open>resource\<close> and \<open>tags\<close> of the trace schema).
\<close>

record Trace =
  TraceId :: int64
  ParentId :: int64
  SpanId :: int64
  Resource :: string
  Tags :: "(string \<times> string) list"

text \<open>
  A Span embeds a pointer to its Trace. None of the operations below writes through that
  pointer, so the Trace is held by value; the Tracer is an empty struct and is left out.
\<close>

record Span =
  Trace :: Trace
  logLines :: "string list"

subsection \<open>The store of spanContext objects\<close>

text \<open>
  \<open>&spanContext{}\<close> allocates. A pointer to a spanContext is an index into the store,
  allocation appends a cell, and a cell is never freed.
\<close>

type_synonym store = "spanContext list"

definition new_spanContext :: "store \<Rightarrow> nat \<times> store" where
  \<comment> \<open>\<open>c := &spanContext{}\<close>: the new object's map is nil, which reads as the empty map\<close>
  "new_spanContext st = (length st, st @ [\<lparr>baggageItems = []\<rparr>])"

definition Init_at :: "nat \<Rightarrow> store \<Rightarrow> store" where
  \<comment> \<open>\<open>c.Init()\<close>\<close>
  "Init_at c st = (if c < length st then st[c := Init (st ! c)] else st)"

definition set_baggageItem :: "nat \<Rightarrow> string \<Rightarrow> string \<Rightarrow> store \<Rightarrow> store" where
  \<comment> \<open>\<open>c.baggageItems[k] = v\<close>; every pointer the program holds is allocated, the other
      branch is there for totality only\<close>
  "set_baggageItem c k v st =
     (if c < length st
      then st[c := (st ! c)\<lparr>baggageItems := Set (baggageItems (st ! c)) k v\<rparr>]
      else st)"

definition contextAsParent :: "Span \<Rightarrow> store \<Rightarrow> nat \<times> store" where
  "contextAsParent s st =
     (let (c, st) = new_spanContext st;
          st = Init_at c st;
          st = set_baggageItem c ''traceid'' (FormatInt (TraceId (Trace s))) st;
          st = set_baggageItem c ''parentid'' (FormatInt (ParentId (Trace s))) st;
          st = set_baggageItem c ''resource'' (Resource (Trace s)) st
      in (c, st))"

definition Context :: "Span \<Rightarrow> store \<Rightarrow> nat \<times> store" where
  "Context s st = contextAsParent s st"

definition SetBaggageItem :: "Span \<Rightarrow> string \<Rightarrow> string \<Rightarrow> store \<Rightarrow> Span \<times> store" where
  "SetBaggageItem s restrictedKey v st =
     (let (c, st) = contextAsParent s st
      in (s, set_baggageItem c restrictedKey v st))"

definition BaggageItem :: "Span \<Rightarrow> string \<Rightarrow> store \<Rightarrow> string \<times> store" where
  "BaggageItem s restrictedKey st =
     (let (c, st) = contextAsParent s st
      in (index_map (baggageItems (st ! c)) restrictedKey, st))"

subsection \<open>Tracer.Inject and Tracer.Extract\<close>

text \<open>
  Modelled from the spec: the protocol-buffer types of package ssf are not among the
  sources. A sample carries its trace in the field Trace, a pointer in the generated
  code (as the Tags are), so it may be nil; the trace has the schema's \<open>trace_id\<close>,
  \<open>span_id\<close> (Id), \<open>parent_id\<close> and \<open>resource\<close>.
\<close>

record SSFTrace =
  ssf_TraceId :: int64
  ssf_Id :: int64
  ssf_ParentId :: int64
  ssf_Resource :: string

record SSFSample =
  ssf_Trace :: "SSFTrace option"

datatype format = Binary | TextMap | HTTPHeaders | OtherFormat

text \<open>
  An opentracing.SpanContext is an interface value: a pointer to a spanContext of this
  package (possibly nil), or anything else. A carrier is an \<open>interface{}\<close>: this package's
  text map (an opentracing.TextMapReader and TextMapWriter), an io.Writer, an io.Reader,
  or a value that is none of them.
\<close>

datatype SpanContextI = spanContextPtr "nat option" | OtherSpanContext

datatype ('w, 'r) carrier =
    TextMapCarrier textMapReaderWriter
  | WriterCarrier 'w
  | ReaderCarrier 'r
  | OtherCarrier

text \<open>
  The calls that leave the file: Trace.ProtoMarshalTo (trace.go) writes the marshalled
  trace to the writer, Trace.context (trace.go) allocates the span context of a trace,
  ioutil.ReadAll drains the reader, proto.Unmarshal decodes a sample. None of them is
  among the sources, so each is a parameter; ProtoMarshalTo and ReadAll call into the
  carrier and may panic there.
\<close>

record ('w, 'r) deps =
  ProtoMarshalTo :: "Trace \<Rightarrow> 'w \<Rightarrow> error option outcome \<times> 'w"
  Trace_context :: "Trace \<Rightarrow> store \<Rightarrow> nat \<times> store"
  ReadAll :: "'r \<Rightarrow> (error + byte list) outcome"
  Unmarshal :: "byte list \<Rightarrow> error + SSFSample"

definition Inject_body ::
  "('w, 'r) deps \<Rightarrow> store \<Rightarrow> SpanContextI \<Rightarrow> format \<Rightarrow> ('w, 'r) carrier
     \<Rightarrow> error option outcome \<times> ('w, 'r) carrier" where
  \<comment> \<open>the body of Inject, without the deferred function: the error returned, or the
      panic raised, and the carrier afterwards\<close>
  "Inject_body d st sm fmt carrier =
     (case sm of
        OtherSpanContext \<Rightarrow> (Return (Some ErrUnsupportedSpanContext), carrier)
      | spanContextPtr sc \<Rightarrow>
          if fmt = Binary then
            (case carrier of
               WriterCarrier w \<Rightarrow>
                 (case sc of
                    None \<Rightarrow> (Panic NilPointerDereference, carrier)
                  | Some c \<Rightarrow>
                      let trace = \<lparr>TraceId = spanContext_TraceId (st ! c),
                                   ParentId = spanContext_ParentId (st ! c),
                                   SpanId = spanContext_SpanId (st ! c),
                                   Resource = spanContext_Resource (st ! c),
                                   Tags = []\<rparr>
                      in (case ProtoMarshalTo d trace w of
                            (r, w') \<Rightarrow> (r, WriterCarrier w')))
             | _ \<Rightarrow> (Panic TypeAssertionFailed, carrier))
          else
            (case carrier of
               TextMapCarrier w \<Rightarrow>
                 (case sc of
                    None \<Rightarrow> (Panic NilPointerDereference, carrier)
                  | Some c \<Rightarrow>
                      (Return None, TextMapCarrier (CloneTo (baggageItems (st ! c)) w)))
             | _ \<Rightarrow> (Return (Some ErrUnsupportedFormat), carrier)))"

definition Inject ::
  "('w, 'r) deps \<Rightarrow> store \<Rightarrow> SpanContextI \<Rightarrow> format \<Rightarrow> ('w, 'r) carrier
     \<Rightarrow> error option outcome \<times> ('w, 'r) carrier" where
  \<comment> \<open>\<open>defer func() { if r := recover(); r != nil { err = ErrContractViolation{r} } }()\<close>:
      the named result \<open>err\<close> is what a return statement stored in it, nil when the
      body panicked before returning\<close>
  "Inject d st sm fmt carrier =
     (case Inject_body d st sm fmt carrier of
        (body, carrier') \<Rightarrow>
          let err = (case body of Return e \<Rightarrow> e | Panic r \<Rightarrow> None);
              err = (case recover body of
                       Some r \<Rightarrow> Some (ErrContractViolation r)
                     | None \<Rightarrow> err)
          in (Return err, carrier'))"

definition Extract_body ::
  "('w, 'r) deps \<Rightarrow> format \<Rightarrow> ('w, 'r) carrier \<Rightarrow> store
     \<Rightarrow> (nat option \<times> error option) outcome \<times> store" where
  \<comment> \<open>the body of Extract: the pair (ctx, err) returned, nil as None, or the panic\<close>
  "Extract_body d fmt carrier st =
     (if fmt = Binary then
        (case carrier of
           ReaderCarrier r \<Rightarrow>
             (case ReadAll d r of
                Panic p \<Rightarrow> (Panic p, st)
              | Return (Inl err) \<Rightarrow> (Return (None, Some err), st)
              | Return (Inr packet) \<Rightarrow>
                  (case Unmarshal d packet of
                     Inl err \<Rightarrow> (Return (None, Some err), st)
                   | Inr sample \<Rightarrow>
                       (case ssf_Trace sample of
                          None \<Rightarrow> (Panic NilPointerDereference, st)
                        | Some tr \<Rightarrow>
                            let trace = \<lparr>TraceId = ssf_TraceId tr,
                                         ParentId = ssf_ParentId tr,
                                         SpanId = ssf_Id tr,
                                         Resource = ssf_Resource tr,
                                         Tags = []\<rparr>
                            in (case Trace_context d trace st of
                                  (c, st') \<Rightarrow> (Return (Some c, None), st')))))
         | _ \<Rightarrow> (Panic TypeAssertionFailed, st))
      else
        (case carrier of
           TextMapCarrier tm \<Rightarrow>
             (case (ParseInt (textMapReaderGet tm ''traceid''),
                    ParseInt (textMapReaderGet tm ''spanid''),
                    ParseInt (textMapReaderGet tm ''parentid'')) of
                (Inr traceId, Inr spanId, Inr parentId) \<Rightarrow>
                  let trace = \<lparr>TraceId = traceId,
                               ParentId = parentId,
                               SpanId = spanId,
                               Resource = textMapReaderGet tm ''resource'',
                               Tags = []\<rparr>
                  in (case Trace_context d trace st of
                        (c, st') \<Rightarrow> (Return (Some c, None), st'))
              | _ \<Rightarrow>
                  (Return (None, Some (ErrorsNew ''error parsing fields from TextMapReader'')),
                   st))
         | _ \<Rightarrow> (Return (None, Some ErrUnsupportedFormat), st)))"

definition Extract ::
  "('w, 'r) deps \<Rightarrow> format \<Rightarrow> ('w, 'r) carrier \<Rightarrow> store
     \<Rightarrow> (nat option \<times> error option) outcome \<times> store" where
  \<comment> \<open>the same deferred function; the named results \<open>ctx\<close> and \<open>err\<close> are what a
      return statement stored in them, both nil when the body panicked before returning\<close>
  "Extract d fmt carrier st =
     (case Extract_body d fmt carrier st of
        (body, st') \<Rightarrow>
          let (ctx, err) = (case body of Return res \<Rightarrow> res | Panic r \<Rightarrow> (None, None));
              err = (case recover body of
                       Some r \<Rightarrow> Some (ErrContractViolation r)
                     | None \<Rightarrow> err)
          in (Return (ctx, err), st'))"

section \<open>The command's main function\<close>

text \<open>
  The second source file is package main of the veneur command: it parses the flag
  \<open>-f\<close>, reads the configuration, builds the server and starts it. Everything it calls
  lives outside the file, so main is modelled as a function of what those calls answer
  (the world) to the list of calls it makes, in order, and the way it ends.
\<close>

text \<open>
  Modelled from the spec: veneur.Config is declared outside the sources; main reads the
  two fields below (\<open>sentry_dsn\<close> and \<open>listen_http\<close> of the configuration).
\<close>

record Config =
  SentryDsn :: string
  HTTPAddress :: string

record Packet =
  Message :: string
  ServerName :: string

datatype call_result = Returns | NeverReturns | Panics panic_value

record ('client, 'server) world =
  ReadConfig :: "string \<Rightarrow> string + Config"
  NewFromConfig :: "Config \<Rightarrow> string + 'server"
  raven_New :: "string \<Rightarrow> 'client option \<times> string option"
  os_Hostname :: string
  server_Start :: "'server \<Rightarrow> call_result"
  server_HTTPServe :: "'server \<Rightarrow> call_result"

text \<open>
  The calls main makes. \<open>Fatal\<close> is logrus's Fatal, which logs and then calls
  \<open>os.Exit(1)\<close>. \<open>RavenCapture\<close> records the receiver of \<open>sentry.Capture\<close>, None for the
  nil pointer; calling a method on a nil pointer is not a panic in Go, and what Capture
  does with it is the client library's business: the model records the call and goes on.
\<close>

datatype 'client event =
    Fatal string
  | LogError string
  | CallReadConfig string
  | CallNewFromConfig
  | RavenNew string
  | RavenCapture "'client option" Packet
  | WaitCapture
  | ServerStart
  | ServerHTTPServe

text \<open>
  How main ends: the process exits with a status, main blocks for ever, or main is left
  (by return or by panic) with the deferred function registered, which hands
  \<open>recover()\<close>, None when there was no panic, to veneur.ConsumePanic.
\<close>

datatype ending = OsExit nat | BlocksForever | ThroughDeferred "panic_value option"

definition configFile :: "string option \<Rightarrow> string" where
  \<comment> \<open>\<open>flag.String("f", "", ...)\<close>: the flag's value, the default \<open>""\<close> when it is absent\<close>
  "configFile flag_f = (case flag_f of None \<Rightarrow> [] | Some path \<Rightarrow> path)"

definition report_failure ::
  "('client, 'server) world \<Rightarrow> Config \<Rightarrow> string \<Rightarrow> 'client event list" where
  \<comment> \<open>the body of \<open>if err != nil\<close> after NewFromConfig, up to the final Fatal\<close>
  "report_failure w conf e =
     (let (sentry, created) =
            (if SentryDsn conf \<noteq> [] then
               (case raven_New w (SentryDsn conf) of
                  (client, err) \<Rightarrow>
                    (client,
                     RavenNew (SentryDsn conf) #
                     (case err of
                        None \<Rightarrow> []
                      | Some err' \<Rightarrow> [LogError ''Error initializing Sentry client''])))
             else (None, []));
          hostname = os_Hostname w;
          p = \<lparr>Message = e, ServerName = []\<rparr>;
          p = (if hostname \<noteq> [] then p\<lparr>ServerName := hostname\<rparr> else p)
      in [LogError ''Error initializing server''] @ created @
         [RavenCapture sentry p, WaitCapture, Fatal ''Could not initialize server''])"

definition serve :: "('client, 'server) world \<Rightarrow> Config \<Rightarrow> 'server \<Rightarrow> 'client event list \<times> ending" where
  \<comment> \<open>from the \<open>defer\<close> on: \<open>server.Start()\<close>, then HTTPServe or \<open>select {}\<close>\<close>
  "serve w conf server =
     (case server_Start w server of
        Panics r \<Rightarrow> ([ServerStart], ThroughDeferred (Some r))
      | NeverReturns \<Rightarrow> ([ServerStart], BlocksForever)
      | Returns \<Rightarrow>
          if HTTPAddress conf \<noteq> [] then
            (case server_HTTPServe w server of
               Panics r \<Rightarrow> ([ServerStart, ServerHTTPServe], ThroughDeferred (Some r))
             | NeverReturns \<Rightarrow> ([ServerStart, ServerHTTPServe], BlocksForever)
             | Returns \<Rightarrow> ([ServerStart, ServerHTTPServe], ThroughDeferred None))
          else ([ServerStart], BlocksForever))"

definition main :: "('client, 'server) world \<Rightarrow> string option \<Rightarrow> 'client event list \<times> ending" where
  "main w flag_f =
     (if configFile flag_f = [] then ([Fatal ''You must specify a config file''], OsExit 1)
      else
        case ReadConfig w (configFile flag_f) of
          Inl err \<Rightarrow>
            ([CallReadConfig (configFile flag_f), Fatal ''Error reading config file''], OsExit 1)
        | Inr conf \<Rightarrow>
            (case NewFromConfig w conf of
               Inl e \<Rightarrow>
                 ([CallReadConfig (configFile flag_f), CallNewFromConfig]
                    @ report_failure w conf e,
                  OsExit 1)
             | Inr server \<Rightarrow>
                 (case serve w conf server of
                    (evs, ending) \<Rightarrow>
                      ([CallReadConfig (configFile flag_f), CallNewFromConfig] @ evs, ending))))"

definition is_RavenNew :: "'client event \<Rightarrow> bool" where
  "is_RavenNew ev = (case ev of RavenNew dsn \<Rightarrow> True | _ \<Rightarrow> False)"

definition is_RavenCapture :: "'client event \<Rightarrow> bool" where
  "is_RavenCapture ev = (case ev of RavenCapture client p \<Rightarrow> True | _ \<Rightarrow> False)"

definition is_server_call :: "'client event \<Rightarrow> bool" where
  \<comment> \<open>the calls that build or run a server\<close>
  "is_server_call ev = (ev = CallNewFromConfig \<or> ev = ServerStart \<or> ev = ServerHTTPServe)"

section \<open>Example inputs\<close>

text \<open>
  Concrete inputs at which the statements below are instantiated. The marshaller and
  the decoder of \<open>example_deps\<close> are toys: a reader is the result ReadAll gets from it,
  a three-byte packet decodes to a sample with those three identifiers, the empty packet
  to a sample without a trace (as the empty message of a protocol buffer does), anything
  else is a decoding error. Its Trace.context is \<open>example_context\<close>: what contextAsParent
  does for a span, with the \<open>spanid\<close> entry that spanContext.SpanId reads.
\<close>

definition example_context :: "Trace \<Rightarrow> store \<Rightarrow> nat \<times> store" where
  "example_context t st =
     (let (c, st) = new_spanContext st;
          st = Init_at c st;
          st = set_baggageItem c ''traceid'' (FormatInt (TraceId t)) st;
          st = set_baggageItem c ''parentid'' (FormatInt (ParentId t)) st;
          st = set_baggageItem c ''spanid'' (FormatInt (SpanId t)) st;
          st = set_baggageItem c ''resource'' (Resource t) st
      in (c, st))"

definition example_deps :: "(byte list, error + byte list) deps" where
  "example_deps =
     \<lparr>ProtoMarshalTo = (\<lambda>t w. (Return None, w @ [1])),
      Trace_context = example_context,
      ReadAll = (\<lambda>r. Return r),
      Unmarshal =
        (\<lambda>packet. case packet of
           [] \<Rightarrow> Inr \<lparr>ssf_Trace = None\<rparr>
         | [a, b, c] \<Rightarrow>
             Inr \<lparr>ssf_Trace = Some \<lparr>ssf_TraceId = ucast a, ssf_Id = ucast b,
                                     ssf_ParentId = ucast c, ssf_Resource = ''checkout''\<rparr>\<rparr>
         | _ \<Rightarrow> Inl (ForeignError ''proto: bad wire format''))\<rparr>"

definition broken_pipe_deps :: "(byte list, error + byte list) deps" where
  \<comment> \<open>a carrier whose Write and Read panic with a value of their own\<close>
  "broken_pipe_deps =
     example_deps
       \<lparr>ProtoMarshalTo := (\<lambda>t w. (Panic (ForeignPanic ''write on closed pipe''), w)),
        ReadAll := (\<lambda>r. Panic (ForeignPanic ''read on closed pipe''))\<rparr>"

definition nil_panic_deps :: "(byte list, error + byte list) deps" where
  \<comment> \<open>a carrier whose Write and Read call \<open>panic(nil)\<close>\<close>
  "nil_panic_deps =
     example_deps
       \<lparr>ProtoMarshalTo := (\<lambda>t w. (Panic NilPanic, w)),
        ReadAll := (\<lambda>r. Panic NilPanic)\<rparr>"

definition example_span :: Span where
  "example_span =
     \<lparr>Trace = \<lparr>TraceId = 5, ParentId = - 3, SpanId = 9, Resource = ''checkout'', Tags = []\<rparr>,
      logLines = []\<rparr>"

definition example_world :: "(nat, nat) world" where
  \<comment> \<open>a configuration file \<open>veneur.yaml\<close> without a Sentry DSN, and a server that
      cannot be built from it\<close>
  "example_world =
     \<lparr>ReadConfig =
        (\<lambda>path. if path = ''veneur.yaml'' then Inr \<lparr>SentryDsn = [], HTTPAddress = []\<rparr>
                 else if path = ''http.yaml''
                 then Inr \<lparr>SentryDsn = ''https://key@sentry.example/1'', HTTPAddress = '':8127''\<rparr>
                 else Inl ''open: no such file or directory''),
      NewFromConfig =
        (\<lambda>conf. if SentryDsn conf = [] then Inl ''bind: address already in use'' else Inr 0),
      raven_New = (\<lambda>dsn. (Some 0, None)),
      os_Hostname = ''host1'',
      server_Start = (\<lambda>server. Returns),
      server_HTTPServe = (\<lambda>server. NeverReturns)\<rparr>"

definition idle_world :: "(nat, nat) world" where
  \<comment> \<open>as \<open>example_world\<close>, but every configuration yields a server\<close>
  "idle_world = example_world\<lparr>NewFromConfig := (\<lambda>conf. Inr 0)\<rparr>"

section \<open>Properties of the library model\<close>

subsection \<open>ParseInt reads back what FormatInt writes\<close>







section \<open>Properties of the tracing adapter\<close>

subsection \<open>What contextAsParent allocates\<close>

lemma contextAsParent_eq:
  "contextAsParent s st =
     (length st,
      st @ [\<lparr>baggageItems = [(''traceid'', FormatInt (TraceId (Trace s))),
                              (''parentid'', FormatInt (ParentId (Trace s))),
                              (''resource'', Resource (Trace s))]\<rparr>])"
  by (simp add: contextAsParent_def new_spanContext_def Init_at_def Init_def
      set_baggageItem_def Set_def)

subsection \<open>SetBaggageItem\<close>

text \<open>
  Claim C2. Span.SetBaggageItem(k, v) changes nothing that can be observed of the span:
  it returns the span as it was, every spanContext that existed before the call is
  untouched (the write lands in the cell that the call itself allocated), and a later
  BaggageItem(k') for any key k', as well as the contents of the context that a later
  Context() returns, are what they would have been without the call.
\<close>

theorem SetBaggageItem_frame:
  "(case SetBaggageItem s k v st of
      (s', st') \<Rightarrow>
        s' = s \<and> take (length st) st' = st \<and>
        fst (BaggageItem s' k' st') = fst (BaggageItem s k' st) \<and>
        (case Context s' st' of (c', st'') \<Rightarrow> st'' ! c')
          = (case Context s st of (c, st1) \<Rightarrow> st1 ! c))"
  by (simp add: SetBaggageItem_def BaggageItem_def Context_def contextAsParent_eq
      set_baggageItem_def nth_append)

subsection \<open>Lookups in a baggage map, whatever the iteration order\<close>

lemma ForeachBaggageItem_Nil: "ForeachBaggageItem \<lparr>baggageItems = []\<rparr> h s = s"
  by (simp add: ForeachBaggageItem_def)

lemma ForeachBaggageItem_Cons:
  "ForeachBaggageItem \<lparr>baggageItems = (k, v) # items\<rparr> h s =
     (case h k v s of
        (b, s') \<Rightarrow> if b then ForeachBaggageItem \<lparr>baggageItems = items\<rparr> h s' else s')"
  by (simp add: ForeachBaggageItem_def split: prod.splits)

lemma parseBaggageInt64_Nil: "parseBaggageInt64 \<lparr>baggageItems = []\<rparr> key = 0"
  by (simp add: parseBaggageInt64_def ForeachBaggageItem_Nil)


lemma filter_mset_eq_Nil:
  "mset items = mset items0 \<Longrightarrow> filter P items0 = [] \<Longrightarrow> filter P items = []"
proof -
  assume a: "mset items = mset items0" and b: "filter P items0 = []"
  have "mset (filter P items) = mset (filter P items0)" using a by simp
  then show ?thesis using b by simp
qed


lemma parse_loop_none:
  "filter (\<lambda>(k, v). ToLower k = ToLower key) items = [] \<Longrightarrow>
   ForeachBaggageItem \<lparr>baggageItems = items\<rparr>
     (\<lambda>k v val. if ToLower k = ToLower key
                 then (case ParseInt v of Inl err \<Rightarrow> (True, val) | Inr i \<Rightarrow> (False, i))
                 else (True, val)) val0 = val0"
proof (induction items)
  case Nil
  then show ?case by (simp add: ForeachBaggageItem_Nil)
next
  case (Cons kv items)
  obtain k v where kv: "kv = (k, v)" by (cases kv)
  from Cons.prems kv have "ToLower k \<noteq> ToLower key" by (auto split: if_splits)
  with Cons kv show ?case by (simp add: ForeachBaggageItem_Cons split: if_splits)
qed


lemma textMapReaderGet_none:
  "filter (\<lambda>(k, v). ToLower k = ToLower key) tm = [] \<Longrightarrow> textMapReaderGet tm key = []"
proof -
  have gen: "filter (\<lambda>(k, v). ToLower k = ToLower key) tm = [] \<Longrightarrow>
     ForeachKey tm (\<lambda>k v val. if ToLower key = ToLower k then (Some (ErrorsNew ''dummy''), v)
                        else (None, val)) val0 = (None, val0)" for val0
  proof (induction tm)
    case Nil
    then show ?case by simp
  next
    case (Cons kv tm)
    obtain k v where kv: "kv = (k, v)" by (cases kv)
    from Cons.prems kv have "ToLower key \<noteq> ToLower k" by (auto split: if_splits)
    with Cons kv show ?case by (simp split: if_splits)
  qed
  assume "filter (\<lambda>(k, v). ToLower k = ToLower key) tm = []"
  from gen [OF this] show ?thesis by (simp add: textMapReaderGet_def)
qed

lemma ToLower_keys:
  "ToLower ''traceid'' = ''traceid''" "ToLower ''parentid'' = ''parentid''"
  "ToLower ''spanid'' = ''spanid''" "ToLower ''resource'' = ''resource''"
  by (simp_all add: ToLower_def lower_byte_def)

subsection \<open>The deferred recover of Inject and Extract\<close>

lemma Inject_of_body:
  "Inject d st sm fmt carrier =
     (case Inject_body d st sm fmt carrier of
        (Return err, carrier') \<Rightarrow> (Return err, carrier')
      | (Panic r, carrier') \<Rightarrow>
          (Return (if r = NilPanic then None else Some (ErrContractViolation r)), carrier'))"
  by (simp add: Inject_def recover_def split: prod.splits outcome.splits)

lemma Extract_of_body:
  "Extract d fmt carrier st =
     (case Extract_body d fmt carrier st of
        (Return res, st') \<Rightarrow> (Return res, st')
      | (Panic r, st') \<Rightarrow>
          (Return (None, if r = NilPanic then None else Some (ErrContractViolation r)), st'))"
  by (simp add: Extract_def recover_def split: prod.splits outcome.splits)

text \<open>
  Claim C3, as amended. No panic leaves Tracer.Inject or Tracer.Extract, whatever the
  span context, the format and the carrier. When the body panics with a value r that is
  not nil, the call returns the error ErrContractViolation{r}, Extract together with a
  nil context: so for a carrier of the wrong dynamic type for the Binary format (not an
  io.Writer for Inject, not an io.Reader for Extract), for a nil *spanContext, and for a
  panic raised inside the carrier's Write or Read. When the body panics with the nil
  value, the panic is recovered as well, but the call returns a nil error, Extract a nil
  context and a nil error.
\<close>

theorem Inject_Extract_recover:
  "fst (Inject d st sm fmt carrier) \<noteq> Panic p \<and>
   fst (Extract d fmt carrier st) \<noteq> Panic p \<and>
   (\<forall>r. fst (Inject_body d st sm fmt carrier) = Panic r \<and> r \<noteq> NilPanic \<longrightarrow>
        fst (Inject d st sm fmt carrier) = Return (Some (ErrContractViolation r))) \<and>
   (\<forall>r. fst (Extract_body d fmt carrier st) = Panic r \<and> r \<noteq> NilPanic \<longrightarrow>
        fst (Extract d fmt carrier st) = Return (None, Some (ErrContractViolation r))) \<and>
   (fst (Inject_body d st sm fmt carrier) = Panic NilPanic \<longrightarrow>
        fst (Inject d st sm fmt carrier) = Return None) \<and>
   (fst (Extract_body d fmt carrier st) = Panic NilPanic \<longrightarrow>
        fst (Extract d fmt carrier st) = Return (None, None)) \<and>
   ((\<forall>w. carrier \<noteq> WriterCarrier w) \<longrightarrow>
        Inject d st (spanContextPtr sc) Binary carrier
          = (Return (Some (ErrContractViolation TypeAssertionFailed)), carrier)) \<and>
   ((\<forall>r. carrier \<noteq> ReaderCarrier r) \<longrightarrow>
        Extract d Binary carrier st
          = (Return (None, Some (ErrContractViolation TypeAssertionFailed)), st)) \<and>
   (\<forall>w. Inject d st (spanContextPtr None) Binary (WriterCarrier w)
          = (Return (Some (ErrContractViolation NilPointerDereference)), WriterCarrier w)) \<and>
   (\<forall>w c r w'.
        ProtoMarshalTo d
          \<lparr>TraceId = spanContext_TraceId (st ! c), ParentId = spanContext_ParentId (st ! c),
           SpanId = spanContext_SpanId (st ! c), Resource = spanContext_Resource (st ! c),
           Tags = []\<rparr> w = (Panic r, w') \<longrightarrow>
        Inject d st (spanContextPtr (Some c)) Binary (WriterCarrier w)
          = (Return (if r = NilPanic then None else Some (ErrContractViolation r)),
             WriterCarrier w')) \<and>
   (\<forall>rd r. ReadAll d rd = Panic r \<longrightarrow>
        Extract d Binary (ReaderCarrier rd) st
          = (Return (None, if r = NilPanic then None else Some (ErrContractViolation r)), st))"
proof -
  have a: "fst (Inject d st sm fmt carrier) \<noteq> Panic p"
    by (simp add: Inject_of_body split: prod.splits outcome.splits)
  have b: "fst (Extract d fmt carrier st) \<noteq> Panic p"
    by (simp add: Extract_of_body split: prod.splits outcome.splits)
  have c: "fst (Inject_body d st sm fmt carrier) = Panic r \<and> r \<noteq> NilPanic \<longrightarrow>
        fst (Inject d st sm fmt carrier) = Return (Some (ErrContractViolation r))" for r
    by (simp add: Inject_of_body split: prod.splits outcome.splits)
  have e: "fst (Extract_body d fmt carrier st) = Panic r \<and> r \<noteq> NilPanic \<longrightarrow>
        fst (Extract d fmt carrier st) = Return (None, Some (ErrContractViolation r))" for r
    by (simp add: Extract_of_body split: prod.splits outcome.splits)
  have c0: "fst (Inject_body d st sm fmt carrier) = Panic NilPanic \<longrightarrow>
        fst (Inject d st sm fmt carrier) = Return None"
    by (simp add: Inject_of_body split: prod.splits outcome.splits)
  have e0: "fst (Extract_body d fmt carrier st) = Panic NilPanic \<longrightarrow>
        fst (Extract d fmt carrier st) = Return (None, None)"
    by (simp add: Extract_of_body split: prod.splits outcome.splits)
  have f: "(\<forall>w. carrier \<noteq> WriterCarrier w) \<longrightarrow>
        Inject d st (spanContextPtr sc) Binary carrier
          = (Return (Some (ErrContractViolation TypeAssertionFailed)), carrier)"
    by (cases carrier) (simp_all add: Inject_of_body Inject_body_def)
  have g: "(\<forall>r. carrier \<noteq> ReaderCarrier r) \<longrightarrow>
        Extract d Binary carrier st
          = (Return (None, Some (ErrContractViolation TypeAssertionFailed)), st)"
    by (cases carrier) (simp_all add: Extract_of_body Extract_body_def)
  have h: "Inject d st (spanContextPtr None) Binary (WriterCarrier w)
          = (Return (Some (ErrContractViolation NilPointerDereference)), WriterCarrier w)" for w
    by (simp add: Inject_of_body Inject_body_def)
  have i: "ProtoMarshalTo d
          \<lparr>TraceId = spanContext_TraceId (st ! c), ParentId = spanContext_ParentId (st ! c),
           SpanId = spanContext_SpanId (st ! c), Resource = spanContext_Resource (st ! c),
           Tags = []\<rparr> w = (Panic r, w') \<longrightarrow>
        Inject d st (spanContextPtr (Some c)) Binary (WriterCarrier w)
          = (Return (if r = NilPanic then None else Some (ErrContractViolation r)),
             WriterCarrier w')" for w c r w'
    by (simp add: Inject_of_body Inject_body_def)
  have j: "ReadAll d rd = Panic r \<longrightarrow>
        Extract d Binary (ReaderCarrier rd) st
          = (Return (None, if r = NilPanic then None else Some (ErrContractViolation r)), st)"
    for rd r
    by (simp add: Extract_of_body Extract_body_def)
  from a b c e c0 e0 f g h i j show ?thesis by blast
qed

text \<open>
  At concrete inputs: a nil *spanContext handed to Inject, a sample without a trace
  handed to Extract, a carrier whose Write and Read panic with a value of their own or
  with nil, and a text map, which is neither an io.Writer nor an io.Reader.
\<close>

theorem Inject_Extract_recover_witness:
  "Inject example_deps [] (spanContextPtr None) Binary (WriterCarrier [])
     = (Return (Some (ErrContractViolation NilPointerDereference)), WriterCarrier []) \<and>
   fst (Extract_body example_deps Binary (ReaderCarrier (Inr [])) [])
     = Panic NilPointerDereference \<and>
   fst (Extract example_deps Binary (ReaderCarrier (Inr [])) [])
     = Return (None, Some (ErrContractViolation NilPointerDereference)) \<and>
   fst (Inject_body broken_pipe_deps [\<lparr>baggageItems = []\<rparr>] (spanContextPtr (Some 0)) Binary
          (WriterCarrier []))
     = Panic (ForeignPanic ''write on closed pipe'') \<and>
   fst (Inject broken_pipe_deps [\<lparr>baggageItems = []\<rparr>] (spanContextPtr (Some 0)) Binary
          (WriterCarrier []))
     = Return (Some (ErrContractViolation (ForeignPanic ''write on closed pipe''))) \<and>
   Extract broken_pipe_deps Binary (ReaderCarrier (Inr [])) []
     = (Return (None, Some (ErrContractViolation (ForeignPanic ''read on closed pipe''))), []) \<and>
   fst (Inject nil_panic_deps [\<lparr>baggageItems = []\<rparr>] (spanContextPtr (Some 0)) Binary
          (WriterCarrier []))
     = Return None \<and>
   fst (Extract nil_panic_deps Binary (ReaderCarrier (Inr [])) []) = Return (None, None) \<and>
   Inject example_deps [] (spanContextPtr None) Binary (TextMapCarrier [])
     = (Return (Some (ErrContractViolation TypeAssertionFailed)), TextMapCarrier []) \<and>
   Extract example_deps Binary (TextMapCarrier []) []
     = (Return (None, Some (ErrContractViolation TypeAssertionFailed)), [])"
proof -
  let ?st = "[\<lparr>baggageItems = []\<rparr>]"
  let ?sc = "spanContextPtr (Some 0)"
  let ?w = "WriterCarrier [] :: (byte list, error + byte list) carrier"
  let ?r = "ReaderCarrier (Inr []) :: (byte list, error + byte list) carrier"
  let ?t = "TextMapCarrier [] :: (byte list, error + byte list) carrier"
  have x: "fst (Extract_body example_deps Binary ?r []) = Panic NilPointerDereference"
    by (simp add: Extract_body_def example_deps_def)
  have bi: "fst (Inject_body broken_pipe_deps ?st ?sc Binary ?w)
     = Panic (ForeignPanic ''write on closed pipe'')"
    by (simp add: Inject_body_def broken_pipe_deps_def)
  have br: "ReadAll broken_pipe_deps (Inr []) = Panic (ForeignPanic ''read on closed pipe'')"
    by (simp add: broken_pipe_deps_def)
  have ni: "fst (Inject_body nil_panic_deps ?st ?sc Binary ?w) = Panic NilPanic"
    by (simp add: Inject_body_def nil_panic_deps_def)
  have nx: "fst (Extract_body nil_panic_deps Binary ?r []) = Panic NilPanic"
    by (simp add: Extract_body_def nil_panic_deps_def)
  have t1: "\<forall>w. ?t \<noteq> WriterCarrier w" by simp
  have t2: "\<forall>r. ?t \<noteq> ReaderCarrier r" by simp
  note e1 = Inject_Extract_recover [where d = example_deps and st = "[]"
      and sm = "spanContextPtr None" and fmt = Binary and carrier = ?r and sc = None]
  note e2 = Inject_Extract_recover [where d = example_deps and st = "[]"
      and sm = "spanContextPtr None" and fmt = Binary and carrier = ?t and sc = None]
  note b1 = Inject_Extract_recover [where d = broken_pipe_deps and st = ?st
      and sm = ?sc and fmt = Binary and carrier = ?w]
  note b2 = Inject_Extract_recover [where d = broken_pipe_deps and st = "[]"
      and sm = ?sc and fmt = Binary and carrier = ?r]
  note n1 = Inject_Extract_recover [where d = nil_panic_deps and st = ?st
      and sm = ?sc and fmt = Binary and carrier = ?w]
  note n2 = Inject_Extract_recover [where d = nil_panic_deps and st = "[]"
      and sm = ?sc and fmt = Binary and carrier = ?r]
  from e1 have r0: "Inject example_deps [] (spanContextPtr None) Binary ?w
     = (Return (Some (ErrContractViolation NilPointerDereference)), ?w)" by blast
  from e1 x have r1: "fst (Extract example_deps Binary ?r [])
     = Return (None, Some (ErrContractViolation NilPointerDereference))" by blast
  from b1 bi have r2: "fst (Inject broken_pipe_deps ?st ?sc Binary ?w)
     = Return (Some (ErrContractViolation (ForeignPanic ''write on closed pipe'')))" by blast
  from b2 br have "Extract broken_pipe_deps Binary ?r []
     = (Return (None, if ForeignPanic ''read on closed pipe'' = NilPanic then None
                      else Some (ErrContractViolation (ForeignPanic ''read on closed pipe''))), [])"
    by blast
  then have r3: "Extract broken_pipe_deps Binary ?r []
     = (Return (None, Some (ErrContractViolation (ForeignPanic ''read on closed pipe''))), [])"
    by simp
  from n1 ni have r4: "fst (Inject nil_panic_deps ?st ?sc Binary ?w) = Return None" by blast
  from n2 nx have r5: "fst (Extract nil_panic_deps Binary ?r []) = Return (None, None)" by blast
  from e2 t1 t2 have r6: "Inject example_deps [] (spanContextPtr None) Binary ?t
     = (Return (Some (ErrContractViolation TypeAssertionFailed)), ?t)"
    and r7: "Extract example_deps Binary ?t []
     = (Return (None, Some (ErrContractViolation TypeAssertionFailed)), [])" by blast+
  from r0 x r1 bi r2 r3 r4 r5 r6 r7 show ?thesis by blast
qed

text \<open>
  The claim as the spec has it (every panic ends in an ErrContractViolation) fails for
  a carrier whose Write or Read calls \<open>panic(nil)\<close>: the deferred function sees
  \<open>recover()\<close> return nil and leaves \<open>err\<close> as it is, so Inject returns a nil error and
  Extract a nil context with a nil error.
\<close>

theorem nil_panic_returns_no_error:
  "fst (Inject_body nil_panic_deps [\<lparr>baggageItems = []\<rparr>] (spanContextPtr (Some 0)) Binary
          (WriterCarrier []))
     = Panic NilPanic \<and>
   Inject nil_panic_deps [\<lparr>baggageItems = []\<rparr>] (spanContextPtr (Some 0)) Binary
          (WriterCarrier [])
     = (Return None, WriterCarrier []) \<and>
   fst (Extract_body nil_panic_deps Binary (ReaderCarrier (Inr [])) []) = Panic NilPanic \<and>
   Extract nil_panic_deps Binary (ReaderCarrier (Inr [])) [] = (Return (None, None), [])"
  by (simp add: Inject_of_body Extract_of_body Inject_body_def Extract_body_def
      nil_panic_deps_def)

subsection \<open>Extract from a binary carrier\<close>






subsection \<open>The context of a span has no span id\<close>

lemma update_keys_pred:
  "list_all (\<lambda>(k, v). P k) al \<Longrightarrow> P k0 \<Longrightarrow> list_all (\<lambda>(k, v). P k) (AList.update k0 v0 al)"
  by (induction al) auto

lemma CloneTo_three:
  "CloneTo [(a, x), (b, y), (c, z)] tm = Set (Set (Set tm a x) b y) c z"
  by (simp add: CloneTo_def)

lemma Extract_without_spanid:
  assumes "textMapReaderGet tm ''spanid'' = []" "fmt \<noteq> Binary"
  shows "Extract d fmt (TextMapCarrier tm) st =
     (Return (None, Some (ErrorsNew ''error parsing fields from TextMapReader'')), st)"
proof -
  have e: "ParseInt [] = Inl ErrSyntax" by (simp add: ParseInt_def)
  show ?thesis
    using assms by (simp add: Extract_def Extract_body_def recover_def e split: sum.splits)
qed

lemma no_spanid_lookup:
  assumes "list_all (\<lambda>(k, v). ToLower k \<noteq> ''spanid'') w" "mset w' = mset w"
  shows "textMapReaderGet w' ''spanid'' = []"
proof -
  from assms(2) have "set w' = set w" by (rule mset_eq_setD)
  with assms(1) have "list_all (\<lambda>(k, v). ToLower k \<noteq> ''spanid'') w'"
    by (simp add: list_all_iff)
  then have "filter (\<lambda>(k, v). ToLower k = ToLower ''spanid'') w' = []"
    by (auto simp: filter_empty_conv list_all_iff ToLower_keys)
  then show ?thesis by (rule textMapReaderGet_none)
qed

text \<open>
  Claim C6. The span context that Span.Context() returns carries exactly three baggage
  entries: \<open>traceid\<close> and \<open>parentid\<close> with the decimal rendering of the span's TraceId
  and ParentId, and \<open>resource\<close> with its Resource. So SpanId() of that context is 0,
  in whatever order the map is iterated. And when that context is injected into a text
  map that holds no span id of its own (no ASCII key that lower-cases to \<open>spanid\<close>),
  the injection succeeds and Tracer.Extract from the resulting text map, iterated in any
  order, returns the error "error parsing fields from TextMapReader".
\<close>

theorem Context_lacks_spanid:
  "(case Context s st of
      (c, st') \<Rightarrow>
        mset (baggageItems (st' ! c)) =
          {#(''traceid'', FormatInt (TraceId (Trace s))),
            (''parentid'', FormatInt (ParentId (Trace s))),
            (''resource'', Resource (Trace s))#} \<and>
        (\<forall>items. mset items = mset (baggageItems (st' ! c)) \<longrightarrow>
           spanContext_SpanId \<lparr>baggageItems = items\<rparr> = 0) \<and>
        (\<forall>tm fmt. fmt \<noteq> Binary \<and> list_all (\<lambda>(k, v). isASCII k \<and> ToLower k \<noteq> ''spanid'') tm \<longrightarrow>
           (\<exists>w. Inject d st' (spanContextPtr (Some c)) fmt (TextMapCarrier tm)
                   = (Return None, TextMapCarrier w) \<and>
                (\<forall>w' fmt' st2. mset w' = mset w \<and> fmt' \<noteq> Binary \<longrightarrow>
                   Extract d fmt' (TextMapCarrier w') st2 =
                     (Return (None, Some (ErrorsNew ''error parsing fields from TextMapReader'')),
                      st2)))))"

proof -
  let ?items0 = "[(''traceid'', FormatInt (TraceId (Trace s))),
                  (''parentid'', FormatInt (ParentId (Trace s))),
                  (''resource'', Resource (Trace s))]"
  let ?st' = "st @ [\<lparr>baggageItems = ?items0\<rparr>]"
  have ctx: "Context s st = (length st, ?st')"
    by (simp add: Context_def contextAsParent_eq)
  have cell: "baggageItems (?st' ! length st) = ?items0" by simp
  have a: "mset (baggageItems (?st' ! length st)) =
          {#(''traceid'', FormatInt (TraceId (Trace s))),
            (''parentid'', FormatInt (ParentId (Trace s))),
            (''resource'', Resource (Trace s))#}"
    by (simp only: cell) simp
  have b: "spanContext_SpanId \<lparr>baggageItems = items\<rparr> = 0"
    if m: "mset items = mset (baggageItems (?st' ! length st))" for items
  proof -
    have f0: "filter (\<lambda>(k, v). ToLower k = ToLower ''spanid'') ?items0 = []"
      by (simp add: ToLower_keys)
    from m have m': "mset items = mset ?items0" by (simp only: cell)
    have "filter (\<lambda>(k, v). ToLower k = ToLower ''spanid'') items = []"
      by (rule filter_mset_eq_Nil [OF m' f0])
    then show ?thesis
      unfolding spanContext_SpanId_def parseBaggageInt64_def by (rule parse_loop_none)
  qed
  have c: "\<exists>w. Inject d ?st' (spanContextPtr (Some (length st))) fmt (TextMapCarrier tm)
                   = (Return None, TextMapCarrier w) \<and>
                (\<forall>w' fmt' st2. mset w' = mset w \<and> fmt' \<noteq> Binary \<longrightarrow>
                   Extract d fmt' (TextMapCarrier w') st2 =
                     (Return (None, Some (ErrorsNew ''error parsing fields from TextMapReader'')),
                      st2))"
    if h: "fmt \<noteq> Binary \<and> list_all (\<lambda>(k, v). isASCII k \<and> ToLower k \<noteq> ''spanid'') tm"
    for tm fmt
  proof -
    let ?w = "CloneTo ?items0 tm"
    from h have inj: "Inject d ?st' (spanContextPtr (Some (length st))) fmt (TextMapCarrier tm)
                   = (Return None, TextMapCarrier ?w)"
      by (simp add: Inject_def Inject_body_def recover_def)
    from h have tm: "list_all (\<lambda>(k, v). ToLower k \<noteq> ''spanid'') tm"
      by (auto simp: list_all_iff)
    have keys: "ToLower ''traceid'' \<noteq> ''spanid''" "ToLower ''parentid'' \<noteq> ''spanid''"
      "ToLower ''resource'' \<noteq> ''spanid''"
      by (simp_all add: ToLower_keys)
    note upd = update_keys_pred [where P = "\<lambda>k. ToLower k \<noteq> ''spanid''"]
    have w: "list_all (\<lambda>(k, v). ToLower k \<noteq> ''spanid'') ?w"
      unfolding CloneTo_three Set_def
      by (rule upd [OF upd [OF upd [OF tm keys(1)] keys(2)] keys(3)])
    have "Extract d fmt' (TextMapCarrier w') st2 =
            (Return (None, Some (ErrorsNew ''error parsing fields from TextMapReader'')), st2)"
      if "mset w' = mset ?w \<and> fmt' \<noteq> Binary" for w' fmt' st2
      using that no_spanid_lookup [OF w] Extract_without_spanid by blast
    with inj show ?thesis by blast
  qed
  from a b c show ?thesis
    by (simp only: ctx prod.case) blast
qed

theorem Context_lacks_spanid_witness:
  "(case Context example_span [] of
      (c, st') \<Rightarrow>
        spanContext_SpanId (st' ! c) = 0 \<and>
        (\<exists>w. Inject example_deps st' (spanContextPtr (Some c)) TextMap
                 (TextMapCarrier [(''user'', ''alice'')])
                = (Return None, TextMapCarrier w) \<and>
              Extract example_deps TextMap (TextMapCarrier w) st' =
                (Return (None, Some (ErrorsNew ''error parsing fields from TextMapReader'')),
                 st')))"
proof -
  obtain c st' where cs: "Context example_span [] = (c, st')"
    by (cases "Context example_span []")
  have h: "TextMap \<noteq> Binary \<and>
      list_all (\<lambda>(k, v). isASCII k \<and> ToLower k \<noteq> ''spanid'') [(''user'', ''alice'')]"
    by (simp add: isASCII_def ToLower_def lower_byte_def)
  from Context_lacks_spanid [where s = example_span and st = "[]" and d = example_deps] cs
  have sp: "\<forall>items. mset items = mset (baggageItems (st' ! c)) \<longrightarrow>
           spanContext_SpanId \<lparr>baggageItems = items\<rparr> = 0"
    and inj: "\<forall>tm fmt. fmt \<noteq> Binary \<and> list_all (\<lambda>(k, v). isASCII k \<and> ToLower k \<noteq> ''spanid'') tm \<longrightarrow>
           (\<exists>w. Inject example_deps st' (spanContextPtr (Some c)) fmt (TextMapCarrier tm)
                   = (Return None, TextMapCarrier w) \<and>
                (\<forall>w' fmt' st2. mset w' = mset w \<and> fmt' \<noteq> Binary \<longrightarrow>
                   Extract example_deps fmt' (TextMapCarrier w') st2 =
                     (Return (None, Some (ErrorsNew ''error parsing fields from TextMapReader'')),
                      st2)))"
    by simp_all
  have cell: "\<lparr>baggageItems = baggageItems (st' ! c)\<rparr> = st' ! c" by simp
  from sp [rule_format, of "baggageItems (st' ! c)"] cell
  have zero: "spanContext_SpanId (st' ! c) = 0" by simp
  from inj [rule_format, OF h] obtain w where
    i: "Inject example_deps st' (spanContextPtr (Some c)) TextMap
          (TextMapCarrier [(''user'', ''alice'')]) = (Return None, TextMapCarrier w)"
    and e: "\<forall>w' fmt' st2. mset w' = mset w \<and> fmt' \<noteq> Binary \<longrightarrow>
                   Extract example_deps fmt' (TextMapCarrier w') st2 =
                     (Return (None, Some (ErrorsNew ''error parsing fields from TextMapReader'')),
                      st2)"
    by blast
  from e [rule_format, of w TextMap st']
  have x: "Extract example_deps TextMap (TextMapCarrier w) st' =
                (Return (None, Some (ErrorsNew ''error parsing fields from TextMapReader'')), st')"
    by simp
  from zero i x show ?thesis by (simp only: cs prod.case) blast
qed

section \<open>Properties of main\<close>

lemma report_failure_no_dsn:
  "SentryDsn conf = [] \<Longrightarrow>
   report_failure w conf e =
     [LogError ''Error initializing server'',
      RavenCapture None \<lparr>Message = e, ServerName = os_Hostname w\<rparr>,
      WaitCapture, Fatal ''Could not initialize server'']"
  by (simp add: report_failure_def Let_def)

text \<open>
  Claim C1, as amended. When \<open>sentry_dsn\<close> is empty and the server cannot be built, main
  creates no Sentry client (raven.New is not called), and it still makes exactly one
  capture call, on the nil client, with the packet of the initialization error.
\<close>

theorem empty_dsn_failure_path:
  "configFile flag_f \<noteq> [] \<and> ReadConfig w (configFile flag_f) = Inr conf \<and>
   NewFromConfig w conf = Inl e \<and> SentryDsn conf = [] \<longrightarrow>
     filter is_RavenNew (fst (main w flag_f)) = [] \<and>
     filter is_RavenCapture (fst (main w flag_f))
       = [RavenCapture None \<lparr>Message = e, ServerName = os_Hostname w\<rparr>]"
  by (simp add: main_def report_failure_no_dsn is_RavenNew_def is_RavenCapture_def)

theorem empty_dsn_failure_path_witness:
  "configFile (Some ''veneur.yaml'') \<noteq> [] \<and>
   SentryDsn \<lparr>SentryDsn = [], HTTPAddress = []\<rparr> = [] \<and>
   filter is_RavenNew (fst (main example_world (Some ''veneur.yaml''))) = [] \<and>
   filter is_RavenCapture (fst (main example_world (Some ''veneur.yaml'')))
     = [RavenCapture None \<lparr>Message = ''bind: address already in use'', ServerName = ''host1''\<rparr>]"
proof -
  have h: "configFile (Some ''veneur.yaml'') \<noteq> [] \<and>
     ReadConfig example_world (configFile (Some ''veneur.yaml''))
       = Inr \<lparr>SentryDsn = [], HTTPAddress = []\<rparr> \<and>
     NewFromConfig example_world \<lparr>SentryDsn = [], HTTPAddress = []\<rparr>
       = Inl ''bind: address already in use'' \<and>
     SentryDsn \<lparr>SentryDsn = [], HTTPAddress = []\<rparr> = []"
    by (simp add: configFile_def example_world_def)
  have n: "os_Hostname example_world = ''host1''" by (simp add: example_world_def)
  from empty_dsn_failure_path [of "Some ''veneur.yaml''" example_world
      "\<lparr>SentryDsn = [], HTTPAddress = []\<rparr>" "''bind: address already in use''"] h n
  show ?thesis by simp
qed

text \<open>
  The claim as the spec has it (no capture call with an empty \<open>sentry_dsn\<close>) fails: with
  the configuration \<open>veneur.yaml\<close> of \<open>example_world\<close>, whose DSN is empty, main calls
  Capture on the nil client.
\<close>

theorem empty_dsn_still_captures:
  "ReadConfig example_world ''veneur.yaml'' = Inr \<lparr>SentryDsn = [], HTTPAddress = []\<rparr> \<and>
   fst (main example_world (Some ''veneur.yaml'')) =
     [CallReadConfig ''veneur.yaml'', CallNewFromConfig,
      LogError ''Error initializing server'',
      RavenCapture None \<lparr>Message = ''bind: address already in use'', ServerName = ''host1''\<rparr>,
      WaitCapture, Fatal ''Could not initialize server''] \<and>
   filter is_RavenCapture (fst (main example_world (Some ''veneur.yaml''))) \<noteq> []"
  by (simp add: main_def configFile_def example_world_def report_failure_no_dsn
      is_RavenCapture_def)

text \<open>
  Claim C4. The command line is the one flag \<open>-f\<close> with the path of the configuration.
  When the flag is absent, or the configuration file it names cannot be read, the
  process ends with exit status 1, and no server has been built or started.
\<close>

theorem config_error_exits_1:
  "flag_f = None \<or> (\<exists>err. ReadConfig w (configFile flag_f) = Inl err) \<longrightarrow>
     snd (main w flag_f) = OsExit 1 \<and> filter is_server_call (fst (main w flag_f)) = []"
  by (auto simp: main_def configFile_def is_server_call_def)

theorem config_error_exits_1_witness:
  "snd (main example_world None) = OsExit 1 \<and>
   filter is_server_call (fst (main example_world None)) = [] \<and>
   ReadConfig example_world (configFile (Some ''missing.yaml''))
     = Inl ''open: no such file or directory'' \<and>
   snd (main example_world (Some ''missing.yaml'')) = OsExit 1 \<and>
   filter is_server_call (fst (main example_world (Some ''missing.yaml''))) = []"
proof -
  have r: "ReadConfig example_world (configFile (Some ''missing.yaml''))
     = Inl ''open: no such file or directory''"
    by (simp add: configFile_def example_world_def)
  from config_error_exits_1 [of None example_world]
  have a: "snd (main example_world None) = OsExit 1 \<and>
   filter is_server_call (fst (main example_world None)) = []" by blast
  from config_error_exits_1 [of "Some ''missing.yaml''" example_world] r
  have b: "snd (main example_world (Some ''missing.yaml'')) = OsExit 1 \<and>
   filter is_server_call (fst (main example_world (Some ''missing.yaml''))) = []" by blast
  from a b r show ?thesis by blast
qed

text \<open>
  Claim C7. Once the server is built and started: with an empty HTTP listen address
  main never calls HTTPServe and blocks for ever instead of exiting; with a non-empty
  address it calls HTTPServe.
\<close>

theorem http_address_decides_serving:
  "configFile flag_f \<noteq> [] \<and> ReadConfig w (configFile flag_f) = Inr conf \<and>
   NewFromConfig w conf = Inr server \<and> server_Start w server = Returns \<longrightarrow>
     (if HTTPAddress conf = []
      then main w flag_f =
             ([CallReadConfig (configFile flag_f), CallNewFromConfig, ServerStart], BlocksForever)
      else fst (main w flag_f) =
             [CallReadConfig (configFile flag_f), CallNewFromConfig, ServerStart,
              ServerHTTPServe])"
  by (simp add: main_def serve_def split: call_result.splits)

theorem http_address_decides_serving_witness:
  "main idle_world (Some ''veneur.yaml'') =
     ([CallReadConfig ''veneur.yaml'', CallNewFromConfig, ServerStart], BlocksForever) \<and>
   fst (main idle_world (Some ''http.yaml'')) =
     [CallReadConfig ''http.yaml'', CallNewFromConfig, ServerStart, ServerHTTPServe]"
proof -
  let ?c1 = "\<lparr>SentryDsn = [], HTTPAddress = []\<rparr>"
  let ?c2 = "\<lparr>SentryDsn = ''https://key@sentry.example/1'', HTTPAddress = '':8127''\<rparr>"
  have h1: "configFile (Some ''veneur.yaml'') \<noteq> [] \<and>
     ReadConfig idle_world (configFile (Some ''veneur.yaml'')) = Inr ?c1 \<and>
     NewFromConfig idle_world ?c1 = Inr 0 \<and> server_Start idle_world 0 = Returns"
    by (simp add: configFile_def idle_world_def example_world_def)
  have h2: "configFile (Some ''http.yaml'') \<noteq> [] \<and>
     ReadConfig idle_world (configFile (Some ''http.yaml'')) = Inr ?c2 \<and>
     NewFromConfig idle_world ?c2 = Inr 0 \<and> server_Start idle_world 0 = Returns"
    by (simp add: configFile_def idle_world_def example_world_def)
  from http_address_decides_serving [of "Some ''veneur.yaml''" idle_world ?c1 0] h1
  have a: "main idle_world (Some ''veneur.yaml'') =
     ([CallReadConfig ''veneur.yaml'', CallNewFromConfig, ServerStart], BlocksForever)"
    by (simp add: configFile_def)
  from http_address_decides_serving [of "Some ''http.yaml''" idle_world ?c2 0] h2
  have b: "fst (main idle_world (Some ''http.yaml'')) =
     [CallReadConfig ''http.yaml'', CallNewFromConfig, ServerStart, ServerHTTPServe]"
    by (simp add: configFile_def)
  from a b show ?thesis by blast
qed

end
